theory Spec2Isabelle
  imports Complex_Main "HOL-Library.AList" "HOL-Library.Sublist"
begin

section \<open>Values exchanged with the outside world\<close>

text \<open>
  Markets, order responses and the position ledger are JSON documents turned into Python
  values. A Python \<open>dict\<close> is kept as the list of its items in insertion order (its keys are
  distinct), a Python \<open>float\<close> or \<open>int\<close> as the real number it denotes (rounding, infinities
  and NaN are outside the model), a Python \<open>str\<close> as the list of its characters.
  The calls of \<open>log\<close> only print and are left out.
\<close>

datatype json =
    JNull
  | JBool bool
  | JNum real
  | JStr string
  | JArr "json list"
  | JObj "(string \<times> json) list"

type_synonym dict = "(string \<times> json) list"

text \<open>\<open>d.get(k)\<close>: the value stored under \<open>k\<close>, or \<open>None\<close>.\<close>

definition dict_get :: "dict \<Rightarrow> string \<Rightarrow> json" where
  "dict_get d k = (case map_of d k of None \<Rightarrow> JNull | Some v \<Rightarrow> v)"

text \<open>\<open>d.get(k, default)\<close>.\<close>

definition dict_get_default :: "dict \<Rightarrow> string \<Rightarrow> json \<Rightarrow> json" where
  "dict_get_default d k dflt = (case map_of d k of None \<Rightarrow> dflt | Some v \<Rightarrow> v)"

text \<open>\<open>k in d\<close> for a dict.\<close>

definition dict_keys :: "dict \<Rightarrow> string set" where
  "dict_keys d = fst ` set d"

text \<open>Python truthiness, as tested by \<open>if x\<close>, \<open>not x\<close> and \<open>x or y\<close>.\<close>

fun truthy :: "json \<Rightarrow> bool" where
  "truthy JNull = False"
| "truthy (JBool b) = b"
| "truthy (JNum r) = (r \<noteq> 0)"
| "truthy (JStr s) = (s \<noteq> [])"
| "truthy (JArr xs) = (xs \<noteq> [])"
| "truthy (JObj kvs) = (kvs \<noteq> [])"

text \<open>
  The library functions the program calls are parameters of the model. \<open>None\<close> stands for
  the call raising an exception.
\<close>

record pylib =
  json_loads :: "string \<Rightarrow> json option"
  json_dumps :: "json \<Rightarrow> string"
  py_repr :: "json \<Rightarrow> string"
  float_of_str :: "string \<Rightarrow> real option"

text \<open>\<open>json.loads(x)\<close>: a \<open>TypeError\<close> unless \<open>x\<close> is a string.\<close>

definition py_loads :: "pylib \<Rightarrow> json \<Rightarrow> json option" where
  "py_loads L x = (case x of JStr s \<Rightarrow> json_loads L s | _ \<Rightarrow> None)"

text \<open>\<open>str(x)\<close>: a string is returned as it is, any other value is printed.\<close>

definition py_str :: "pylib \<Rightarrow> json \<Rightarrow> string" where
  "py_str L x = (case x of JStr s \<Rightarrow> s | _ \<Rightarrow> py_repr L x)"

text \<open>\<open>float(x)\<close>: numbers and booleans convert, strings are parsed, anything else raises.\<close>

definition py_float :: "pylib \<Rightarrow> json \<Rightarrow> real option" where
  "py_float L x =
     (case x of
        JNum r \<Rightarrow> Some r
      | JBool b \<Rightarrow> Some (if b then 1 else 0)
      | JStr s \<Rightarrow> float_of_str L s
      | _ \<Rightarrow> None)"

text \<open>\<open>len(x)\<close>, iteration over \<open>x\<close> and \<open>x[i]\<close> for \<open>0 \<le> i < len(x)\<close>.\<close>

definition py_len :: "json \<Rightarrow> nat option" where
  "py_len x =
     (case x of
        JArr xs \<Rightarrow> Some (length xs)
      | JStr s \<Rightarrow> Some (length s)
      | JObj kvs \<Rightarrow> Some (length kvs)
      | _ \<Rightarrow> None)"

definition py_iter :: "json \<Rightarrow> json list option" where
  "py_iter x =
     (case x of
        JArr xs \<Rightarrow> Some xs
      | JStr s \<Rightarrow> Some (map (\<lambda>c. JStr [c]) s)
      | JObj kvs \<Rightarrow> Some (map (\<lambda>kv. JStr (fst kv)) kvs)
      | _ \<Rightarrow> None)"

definition py_index :: "json \<Rightarrow> nat \<Rightarrow> json option" where
  "py_index x i =
     (case x of
        JArr xs \<Rightarrow> (if i < length xs then Some (xs ! i) else None)
      | JStr s \<Rightarrow> (if i < length s then Some (JStr [s ! i]) else None)
      | _ \<Rightarrow> None)"

text \<open>
  \<open>s.lower()\<close>. Only the letters A to Z are changed: no other character of Unicode has
  one of the letters of \<open>yes\<close> and \<open>no\<close> as its lower case, so the comparisons of the
  program come out the same.
\<close>

definition lower_char :: "char \<Rightarrow> char" where
  "lower_char c =
     (let n = (of_char c :: nat) in if 65 \<le> n \<and> n \<le> 90 then char_of (n + 32) else c)"

definition lower :: "string \<Rightarrow> string" where
  "lower s = map lower_char s"

definition py_lower :: "json \<Rightarrow> string option" where
  "py_lower x = (case x of JStr s \<Rightarrow> Some (lower s) | _ \<Rightarrow> None)"


section \<open>ContractResolver: \<open>get_token_ids\<close>\<close>

record contract_ref =
  yes :: "string option"
  no :: "string option"

text \<open>
  The loop \<open>for i, outcome in enumerate(outcomes)\<close>. It runs inside \<open>try\<close>, and the handler
  is \<open>pass\<close>: an exception ends the loop and what was stored in \<open>result\<close> so far is returned.
\<close>

fun match_outcomes :: "pylib \<Rightarrow> json \<Rightarrow> nat \<Rightarrow> json list \<Rightarrow> contract_ref \<Rightarrow> contract_ref" where
  "match_outcomes L tokens i [] result = result"
| "match_outcomes L tokens i (outcome # rest) result =
     (case py_len tokens of
        None \<Rightarrow> result
      | Some n \<Rightarrow>
          if i < n then
            (case py_lower outcome of
               None \<Rightarrow> result
             | Some l \<Rightarrow>
                 if l = ''yes'' then
                   (case py_index tokens i of
                      None \<Rightarrow> result
                    | Some t \<Rightarrow>
                        match_outcomes L tokens (Suc i) rest (result\<lparr>yes := Some (py_str L t)\<rparr>))
                 else if l = ''no'' then
                   (case py_index tokens i of
                      None \<Rightarrow> result
                    | Some t \<Rightarrow>
                        match_outcomes L tokens (Suc i) rest (result\<lparr>no := Some (py_str L t)\<rparr>))
                 else match_outcomes L tokens (Suc i) rest result)
          else match_outcomes L tokens (Suc i) rest result)"

definition get_token_ids :: "pylib \<Rightarrow> dict \<Rightarrow> contract_ref" where
  "get_token_ids L market =
     (let result = \<lparr>yes = None, no = None\<rparr>;
          tokens_str = dict_get market ''clobTokenIds'';
          outcomes_str = dict_get market ''outcomes''
      in if \<not> truthy tokens_str \<or> \<not> truthy outcomes_str then result
         else
           (case py_loads L tokens_str of
              None \<Rightarrow> result
            | Some tokens \<Rightarrow>
                (case py_loads L outcomes_str of
                   None \<Rightarrow> result
                 | Some outcomes \<Rightarrow>
                     (case py_iter outcomes of
                        None \<Rightarrow> result
                      | Some os \<Rightarrow> match_outcomes L tokens 0 os result))))"

text \<open>
  The property to compare with: the contract id of the last label of the common prefix of
  the two arrays that equals \<open>sd\<close> once lowered.
\<close>

definition last_match :: "string \<Rightarrow> string list \<Rightarrow> json list \<Rightarrow> json option" where
  "last_match sd labels toks =
     (case filter (\<lambda>p. lower (fst p) = sd) (zip labels toks) of
        [] \<Rightarrow> None
      | ps \<Rightarrow> Some (snd (last ps)))"

text \<open>
  Well-formed arrays: both fields are non-empty strings, and they parse to an array of
  string labels and an array of contract ids.
\<close>

definition parsed_arrays :: "pylib \<Rightarrow> dict \<Rightarrow> string list \<Rightarrow> json list \<Rightarrow> bool" where
  "parsed_arrays L market labels toks =
     (case (dict_get market ''clobTokenIds'', dict_get market ''outcomes'') of
        (JStr ts, JStr os) \<Rightarrow>
          ts \<noteq> [] \<and> os \<noteq> [] \<and> json_loads L ts = Some (JArr toks) \<and>
          json_loads L os = Some (JArr (map JStr labels))
      | _ \<Rightarrow> False)"


section \<open>Bot configuration\<close>

definition MIN_DEPTH :: real where "MIN_DEPTH = 50"
definition MAX_SPREAD :: real where "MAX_SPREAD = 0.05"
definition MIN_YIELD :: real where "MIN_YIELD = 0.01"
definition POSITION_SIZE_PCT :: real where "POSITION_SIZE_PCT = 0.10"
definition MAX_POSITION_SIZE :: real where "MAX_POSITION_SIZE = 10.0"


section \<open>The exchange, the chain and the ledger file\<close>

text \<open>
  What \<open>get_order_book\<close> hands back: nothing usable (a false value, or an object without
  \<open>asks\<close> or \<open>bids\<close>), or the two sides, each level with its \<open>price\<close> and \<open>size\<close> before
  \<open>float\<close> is applied. A side that is \<open>None\<close> is the empty list.
\<close>

record raw_level =
  raw_price :: json
  raw_size :: json

datatype book = Malformed | Book "raw_level list" "raw_level list"

record order_args =
  token_id :: string
  order_price :: real
  order_size :: real
  side :: string
  fee_rate_bps :: nat

text \<open>
  The outside world seen by one cycle: the exchange, the chain and the clock are a state
  \<open>'x\<close> with the operations below (\<open>None\<close>: the call raises); \<open>post_order\<close> stands for
  \<open>create_order\<close> followed by \<open>post_order\<close>.
\<close>

record 'x env =
  get_order_book :: "string \<Rightarrow> 'x \<Rightarrow> book option \<times> 'x"
  post_order :: "order_args \<Rightarrow> 'x \<Rightarrow> json option \<times> 'x"
  balance_of :: "'x \<Rightarrow> int option \<times> 'x"
  now_iso :: "'x \<Rightarrow> string"

text \<open>
  The file \<open>open_positions.json\<close>: absent, present but not to be opened, or its content.
  \<open>submitted\<close> lists the orders handed to the exchange so far, each with the response.
\<close>

datatype file_state = Absent | Inaccessible | Content string

record 'x world =
  ledger_file :: file_state
  submitted :: "(order_args \<times> json option) list"
  ext :: 'x

datatype exn = ZeroDivisionError | TypeError | OSError


section \<open>PositionLedger: \<open>load_positions\<close> and \<open>save_positions\<close>\<close>




definition save_positions :: "pylib \<Rightarrow> dict \<Rightarrow> 'x world \<Rightarrow> exn option \<times> 'x world" where
  "save_positions L positions w =
     (case ledger_file w of
        Inaccessible \<Rightarrow> (Some OSError, w)
      | _ \<Rightarrow> (None, w\<lparr>ledger_file := Content (json_dumps L (JObj positions))\<rparr>))"

definition get_balance :: "'x env \<Rightarrow> 'x world \<Rightarrow> real \<times> 'x world" where
  "get_balance E w =
     (let (b, x') = balance_of E (ext w)
      in (case b of None \<Rightarrow> 0 | Some n \<Rightarrow> real_of_int n / 1000000, w\<lparr>ext := x'\<rparr>))"


section \<open>OrderBookAnalyzer: \<open>analyze_ob\<close>\<close>

record level =
  price :: real
  lsize :: real

record ob_summary =
  ask :: real
  bid :: real
  spread :: real
  depth :: real

text \<open>The list comprehensions: \<open>None\<close> as soon as one \<open>float\<close> raises.\<close>

fun parse_levels :: "pylib \<Rightarrow> raw_level list \<Rightarrow> level list option" where
  "parse_levels L [] = Some []"
| "parse_levels L (a # rest) =
     (case py_float L (raw_price a) of
        None \<Rightarrow> None
      | Some p \<Rightarrow>
          (case py_float L (raw_size a) of
             None \<Rightarrow> None
           | Some s \<Rightarrow>
               (case parse_levels L rest of
                  None \<Rightarrow> None
                | Some ls \<Rightarrow> Some (\<lparr>price = p, lsize = s\<rparr> # ls))))"

text \<open>
  \<open>min(xs, key=...)\<close> and \<open>max(xs, key=...)\<close> on a non-empty list: the first element
  is kept until a strictly better one comes.
\<close>

fun min_by_price :: "level \<Rightarrow> level list \<Rightarrow> level" where
  "min_by_price best [] = best"
| "min_by_price best (x # xs) = min_by_price (if price x < price best then x else best) xs"

fun max_by_price :: "level \<Rightarrow> level list \<Rightarrow> level" where
  "max_by_price best [] = best"
| "max_by_price best (x # xs) = max_by_price (if price x > price best then x else best) xs"

definition summarize :: "pylib \<Rightarrow> book option \<Rightarrow> ob_summary option" where
  "summarize L resp =
     (case resp of
        None \<Rightarrow> None
      | Some Malformed \<Rightarrow> None
      | Some (Book raw_asks raw_bids) \<Rightarrow>
          (case parse_levels L raw_asks of
             None \<Rightarrow> None
           | Some asks \<Rightarrow>
               (case parse_levels L raw_bids of
                  None \<Rightarrow> None
                | Some bids \<Rightarrow>
                    (case (asks, bids) of
                       (a # asks', b # bids') \<Rightarrow>
                         (let best_ask = min_by_price a asks';
                              best_bid = max_by_price b bids'
                          in Some \<lparr>ask = price best_ask,
                                   bid = price best_bid,
                                   spread = price best_ask - price best_bid,
                                   depth = sum_list (map lsize
                                     (filter (\<lambda>b. 0.90 \<le> price b \<and> price b \<le> 0.98) bids))\<rparr>)
                     | _ \<Rightarrow> None))))"

definition analyze_ob :: "'x env \<Rightarrow> pylib \<Rightarrow> string \<Rightarrow> 'x \<Rightarrow> ob_summary option \<times> 'x" where
  "analyze_ob E L tid x = (let (resp, x') = get_order_book E tid x in (summarize L resp, x'))"


section \<open>OpportunityRanker: \<open>find_opps\<close>\<close>

text \<open>
  An opportunity is the market with the entries \<open>_ob\<close>, \<open>_tids\<close>, \<open>_yield\<close> and \<open>_price\<close>
  that \<open>find_opps\<close> stores in it. The only place that builds one has tested that
  \<open>tids['no']\<close> is a non-empty string, so \<open>_tids\<close> is kept as its \<open>yes\<close> entry and the
  string under \<open>no\<close>.
\<close>

record opp =
  opp_market :: dict
  opp_ob :: ob_summary
  opp_yes :: "string option"
  opp_no :: string
  opp_yield :: real
  opp_price :: real

text \<open>The loop over the markets, the exchange being asked one book after the other.\<close>

fun scan_markets :: "'x env \<Rightarrow> pylib \<Rightarrow> dict \<Rightarrow> dict list \<Rightarrow> 'x \<Rightarrow> opp list \<times> 'x" where
  "scan_markets E L positions [] x = ([], x)"
| "scan_markets E L positions (m # ms) x =
     (let tids = get_token_ids L m
      in case no tids of
           None \<Rightarrow> scan_markets E L positions ms x
         | Some tid \<Rightarrow>
             if tid = [] \<or> tid \<in> dict_keys positions then scan_markets E L positions ms x
             else
               (case analyze_ob E L tid x of
                  (None, x1) \<Rightarrow> scan_markets E L positions ms x1
                | (Some ob, x1) \<Rightarrow>
                    if spread ob > MAX_SPREAD \<or> depth ob < MIN_DEPTH
                    then scan_markets E L positions ms x1
                    else if 0.90 \<le> ask ob \<and> ask ob \<le> 0.98 then
                      (let y = (1.0 - ask ob) / ask ob
                       in if y \<ge> MIN_YIELD then
                            (case scan_markets E L positions ms x1 of
                               (opps, x2) \<Rightarrow>
                                 (\<lparr>opp_market = m, opp_ob = ob, opp_yes = yes tids,
                                   opp_no = tid, opp_yield = y, opp_price = ask ob\<rparr> # opps, x2))
                          else scan_markets E L positions ms x1)
                    else scan_markets E L positions ms x1))"

text \<open>
  \<open>opps.sort(key=..., reverse=True)\<close>: descending, and stable (elements with equal keys
  keep their order), which is the stable ascending sort on the negated key.
\<close>

definition sort_desc :: "opp list \<Rightarrow> opp list" where
  "sort_desc opps = sort_key (\<lambda>p. - opp_yield p) opps"

definition find_opps :: "'x env \<Rightarrow> pylib \<Rightarrow> dict list \<Rightarrow> dict \<Rightarrow> 'x \<Rightarrow> opp list \<times> 'x" where
  "find_opps E L markets positions x =
     (case scan_markets E L positions markets x of (opps, x') \<Rightarrow> (sort_desc opps, x'))"


section \<open>Sizer/Executor: \<open>place_trade\<close>\<close>

definition stake_of :: "real \<Rightarrow> real" where
  "stake_of balance = min (balance * POSITION_SIZE_PCT) MAX_POSITION_SIZE"

text \<open>\<open>resp.get('orderID')\<close> inside the \<open>try\<close>: \<open>None\<close> is returned when anything raises.\<close>

definition order_id :: "json option \<Rightarrow> json" where
  "order_id resp = (case resp of Some (JObj d) \<Rightarrow> dict_get d ''orderID'' | _ \<Rightarrow> JNull)"

text \<open>
  The result is the order id (\<open>JNull\<close> for \<open>None\<close>), or the exception that escapes: the
  division is made before the stake is tested and outside the \<open>try\<close>.
\<close>

definition place_trade :: "'x env \<Rightarrow> opp \<Rightarrow> real \<Rightarrow> 'x world \<Rightarrow> (exn + json) \<times> 'x world" where
  "place_trade E opp balance w =
     (let tid = opp_no opp;
          price = opp_price opp;
          stake = stake_of balance
      in if price = 0 then (Inl ZeroDivisionError, w)
         else
           (let size = stake / price
            in if stake < 0.50 then (Inr JNull, w)
               else
                 (let order = \<lparr>token_id = tid, order_price = price, order_size = size,
                                side = ''BUY'', fee_rate_bps = 0\<rparr>
                  in case post_order E order (ext w) of
                       (resp, x') \<Rightarrow>
                         (Inr (order_id resp),
                          w\<lparr>ext := x', submitted := submitted w @ [(order, resp)]\<rparr>))))"


section \<open>CycleOrchestrator: the execution loop of \<open>run_cycle\<close>\<close>

record cycle =
  positions :: dict
  balance :: real
  trades :: nat

text \<open>\<open>opp.get('question', 'Unknown')[:50]\<close> in the log line: slicing anything but text raises.\<close>

definition sliceable :: "json \<Rightarrow> bool" where
  "sliceable v = (case v of JStr s \<Rightarrow> True | JArr xs \<Rightarrow> True | _ \<Rightarrow> False)"

definition position_entry :: "'x env \<Rightarrow> opp \<Rightarrow> json \<Rightarrow> 'x \<Rightarrow> json" where
  "position_entry E opp oid x =
     JObj [(''title'', dict_get_default (opp_market opp) ''question'' (JStr ''Unknown'')),
           (''price'', JNum (opp_price opp)),
           (''yield'', JNum (opp_yield opp)),
           (''time'', JStr (now_iso E x)),
           (''order_id'', oid)]"

text \<open>
  One round of \<open>for opp in opps[:3]\<close> on a ledger that is a dict (\<open>run_step\<close> below is the
  round on any ledger). The first component is the exception that ends the cycle, if any;
  the state and the world are those reached when it is raised.
\<close>

definition exec_step ::
  "'x env \<Rightarrow> pylib \<Rightarrow> opp \<Rightarrow> cycle \<times> 'x world \<Rightarrow> exn option \<times> cycle \<times> 'x world" where
  "exec_step E L opp sw =
     (case sw of (s, w) \<Rightarrow>
        (let tid = opp_no opp
         in if tid \<in> dict_keys (positions s) then (None, s, w)
            else if \<not> sliceable (dict_get_default (opp_market opp) ''question'' (JStr ''Unknown''))
            then (Some TypeError, s, w)
            else
              (case place_trade E opp (balance s) w of
                 (Inl e, w1) \<Rightarrow> (Some e, s, w1)
               | (Inr oid, w1) \<Rightarrow>
                   if truthy oid then
                     (let s1 = s\<lparr>positions :=
                                   AList.update tid (position_entry E opp oid (ext w1)) (positions s)\<rparr>
                      in case save_positions L (positions s1) w1 of
                           (Some e, w2) \<Rightarrow> (Some e, s1, w2)
                         | (None, w2) \<Rightarrow>
                             (case get_balance E w2 of
                                (b, w3) \<Rightarrow> (None, s1\<lparr>trades := trades s1 + 1, balance := b\<rparr>, w3)))
                   else (None, s, w1))))"

fun exec_loop ::
  "'x env \<Rightarrow> pylib \<Rightarrow> opp list \<Rightarrow> cycle \<times> 'x world \<Rightarrow> exn option \<times> cycle \<times> 'x world" where
  "exec_loop E L [] sw = (None, sw)"
| "exec_loop E L (opp # rest) sw =
     (case exec_step E L opp sw of
        (Some e, sw') \<Rightarrow> (Some e, sw')
      | (None, sw') \<Rightarrow> exec_loop E L rest sw')"

definition execute_top ::
  "'x env \<Rightarrow> pylib \<Rightarrow> opp list \<Rightarrow> cycle \<times> 'x world \<Rightarrow> exn option \<times> cycle \<times> 'x world" where
  "execute_top E L opps sw = exec_loop E L (take 3 opps) sw"

text \<open>The orders handed to the exchange between two worlds.\<close>

definition new_orders :: "'x world \<Rightarrow> 'x world \<Rightarrow> (order_args \<times> json option) list" where
  "new_orders w w' = drop (length (submitted w)) (submitted w')"

text \<open>An order that made the loop record a position: its response carries a true order id.\<close>

definition recorded :: "string \<Rightarrow> order_args \<times> json option \<Rightarrow> bool" where
  "recorded tid p = (token_id (fst p) = tid \<and> truthy (order_id (snd p)))"

text \<open>
  What holds of the orders \<open>evs\<close> handed over while the loop runs over \<open>opps\<close> from the
  state \<open>s\<close> to the state \<open>s'\<close>: they follow the order of the opportunities, at most one of
  them per contract id is recorded, none is for a contract id of the ledger the loop
  started from, and the keys the ledger gains are those of the recorded orders.
\<close>

definition loop_inv ::
  "opp list \<Rightarrow> cycle \<Rightarrow> cycle \<Rightarrow> (order_args \<times> json option) list \<Rightarrow> bool" where
  "loop_inv opps s s' evs \<longleftrightarrow>
     subseq (map (\<lambda>p. token_id (fst p)) evs) (map opp_no opps) \<and>
     (\<forall>tid. length (filter (recorded tid) evs) \<le> 1) \<and>
     (\<forall>p \<in> set evs. token_id (fst p) \<notin> dict_keys (positions s)) \<and>
     dict_keys (positions s') = dict_keys (positions s) \<union> {tid. \<exists>p \<in> set evs. recorded tid p} \<and>
     (distinct (map fst (positions s)) \<longrightarrow> distinct (map fst (positions s')))"

text \<open>
  The ledger the loop works on is what \<open>load_positions\<close> returned, which is any value a
  JSON file can hold. \<open>tid in positions\<close> looks among the keys of a dict, the elements of
  a list and the substrings of a string, and raises on anything else;
  \<open>positions[tid] = entry\<close> raises unless \<open>positions\<close> is a dict.
\<close>

definition py_contains :: "json \<Rightarrow> string \<Rightarrow> bool option" where
  "py_contains c k =
     (case c of
        JObj d \<Rightarrow> Some (k \<in> dict_keys d)
      | JArr xs \<Rightarrow> Some (JStr k \<in> set xs)
      | JStr s \<Rightarrow> Some (sublist k s)
      | _ \<Rightarrow> None)"

definition py_setitem :: "json \<Rightarrow> string \<Rightarrow> json \<Rightarrow> dict option" where
  "py_setitem c k v = (case c of JObj d \<Rightarrow> Some (AList.update k v d) | _ \<Rightarrow> None)"

record run =
  run_ledger :: json
  run_balance :: real
  run_trades :: nat

text \<open>
  One round of \<open>for opp in opps[:3]\<close> on such a ledger, then the loop. On a ledger that
  is a dict the round is \<open>exec_step\<close>.
\<close>

definition run_step ::
  "'x env \<Rightarrow> pylib \<Rightarrow> opp \<Rightarrow> run \<times> 'x world \<Rightarrow> exn option \<times> run \<times> 'x world" where
  "run_step E L opp rw =
     (case rw of (r, w) \<Rightarrow>
        (let tid = opp_no opp
         in case py_contains (run_ledger r) tid of
              None \<Rightarrow> (Some TypeError, r, w)
            | Some True \<Rightarrow> (None, r, w)
            | Some False \<Rightarrow>
                if \<not> sliceable (dict_get_default (opp_market opp) ''question'' (JStr ''Unknown''))
                then (Some TypeError, r, w)
                else
                  (case place_trade E opp (run_balance r) w of
                     (Inl e, w1) \<Rightarrow> (Some e, r, w1)
                   | (Inr oid, w1) \<Rightarrow>
                       if truthy oid then
                         (case py_setitem (run_ledger r) tid
                                 (position_entry E opp oid (ext w1)) of
                            None \<Rightarrow> (Some TypeError, r, w1)
                          | Some d \<Rightarrow>
                              (let r1 = r\<lparr>run_ledger := JObj d\<rparr>
                               in case save_positions L d w1 of
                                    (Some e, w2) \<Rightarrow> (Some e, r1, w2)
                                  | (None, w2) \<Rightarrow>
                                      (case get_balance E w2 of
                                         (b, w3) \<Rightarrow>
                                           (None,
                                            r1\<lparr>run_trades := run_trades r1 + 1,
                                               run_balance := b\<rparr>,
                                            w3))))
                       else (None, r, w1))))"

fun run_loop ::
  "'x env \<Rightarrow> pylib \<Rightarrow> opp list \<Rightarrow> run \<times> 'x world \<Rightarrow> exn option \<times> run \<times> 'x world" where
  "run_loop E L [] rw = (None, rw)"
| "run_loop E L (opp # rest) rw =
     (case run_step E L opp rw of
        (Some e, rw') \<Rightarrow> (Some e, rw')
      | (None, rw') \<Rightarrow> run_loop E L rest rw')"

definition run_top ::
  "'x env \<Rightarrow> pylib \<Rightarrow> opp list \<Rightarrow> run \<times> 'x world \<Rightarrow> exn option \<times> run \<times> 'x world" where
  "run_top E L opps rw = run_loop E L (take 3 opps) rw"


section \<open>Sample instances of the parameters\<close>

text \<open>
  A library and an exchange to run the definitions on: the library agrees with Python on
  the few strings it knows and raises on every other one.
\<close>

definition sample_loads :: "string \<Rightarrow> json option" where
  "sample_loads s =
     (if s = ''[\"Yes\", \"No\"]'' then Some (JArr [JStr ''Yes'', JStr ''No''])
      else if s = ''[\"Yes\", \"YES\"]'' then Some (JArr [JStr ''Yes'', JStr ''YES''])
      else if s = ''[\"111\", \"222\"]'' then Some (JArr [JStr ''111'', JStr ''222''])
      else if s = ''[\"333\", \"444\"]'' then Some (JArr [JStr ''333'', JStr ''444''])
      else if s = ''[\"111\"]'' then Some (JArr [JStr ''111''])
      else if s = ''{}'' then Some (JObj [])
      else if s = ''{\"222\": {}}'' then Some (JObj [(''222'', JObj [])])
      else None)"

definition sample_float :: "string \<Rightarrow> real option" where
  "sample_float s =
     (if s = ''0.95'' then Some 0.95
      else if s = ''0.94'' then Some 0.94
      else if s = ''0.5'' then Some 0.5
      else if s = ''0.6'' then Some 0.6
      else if s = ''100'' then Some 100
      else None)"

definition sample_lib :: pylib where
  "sample_lib =
     \<lparr>json_loads = sample_loads,
      json_dumps = (\<lambda>v. case v of JObj [] \<Rightarrow> ''{}'' | _ \<Rightarrow> ''{...}''),
      py_repr = (\<lambda>v. ''?''),
      float_of_str = sample_float\<rparr>"

definition sample_book :: book where
  "sample_book =
     Book [\<lparr>raw_price = JStr ''0.95'', raw_size = JStr ''100''\<rparr>]
          [\<lparr>raw_price = JStr ''0.94'', raw_size = JStr ''100''\<rparr>]"

definition crossed_book :: book where
  "crossed_book =
     Book [\<lparr>raw_price = JStr ''0.5'', raw_size = JStr ''100''\<rparr>]
          [\<lparr>raw_price = JStr ''0.6'', raw_size = JStr ''100''\<rparr>]"

text \<open>
  The exchange answers every request with \<open>sample_book\<close>, accepts every order with the
  order id \<open>0xabc\<close>, and the wallet holds 100 units; the state counts the orders posted.
\<close>

definition sample_env :: "nat env" where
  "sample_env =
     \<lparr>get_order_book = (\<lambda>tid x. (Some sample_book, x)),
      post_order = (\<lambda>order x. (Some (JObj [(''orderID'', JStr ''0xabc'')]), Suc x)),
      balance_of = (\<lambda>x. (Some 100000000, x)),
      now_iso = (\<lambda>x. ''2026-11-04T12:00:00'')\<rparr>"


definition sample_world :: "nat world" where
  "sample_world = \<lparr>ledger_file = Absent, submitted = [], ext = 0\<rparr>"

definition sample_market :: dict where
  "sample_market =
     [(''question'', JStr ''Will it rain?''),
      (''endDate'', JStr ''2026-11-05T12:00:00Z''),
      (''volume24hr'', JNum 50000),
      (''outcomes'', JStr ''[\"Yes\", \"No\"]''),
      (''clobTokenIds'', JStr ''[\"111\", \"222\"]'')]"

definition sample_market2 :: dict where
  "sample_market2 =
     [(''question'', JStr ''Will it snow?''),
      (''endDate'', JStr ''2026-11-05T12:00:00Z''),
      (''volume24hr'', JNum 50000),
      (''outcomes'', JStr ''[\"Yes\", \"No\"]''),
      (''clobTokenIds'', JStr ''[\"333\", \"444\"]'')]"

definition sample_opp :: opp where
  "sample_opp =
     \<lparr>opp_market = sample_market,
      opp_ob = \<lparr>ask = 0.95, bid = 0.94, spread = 0.95 - 0.94, depth = 100\<rparr>,
      opp_yes = Some ''111'', opp_no = ''222'',
      opp_yield = (1.0 - 0.95) / 0.95, opp_price = 0.95\<rparr>"

definition sample_opp2 :: opp where
  "sample_opp2 = sample_opp\<lparr>opp_market := sample_market2, opp_yes := Some ''333'', opp_no := ''444''\<rparr>"

definition sample_opp3 :: opp where
  "sample_opp3 = sample_opp\<lparr>opp_yes := Some ''555'', opp_no := ''666''\<rparr>"

definition sample_opp4 :: opp where
  "sample_opp4 = sample_opp\<lparr>opp_yes := Some ''777'', opp_no := ''888''\<rparr>"

definition sample_cycle :: cycle where
  "sample_cycle = \<lparr>positions = [], balance = 100, trades = 0\<rparr>"

definition sample_run :: run where
  "sample_run = \<lparr>run_ledger = JObj [], run_balance = 50, run_trades = 0\<rparr>"


section \<open>Properties of the ContractResolver\<close>

lemma last_match_Nil [simp]: "last_match sd [] toks = None" "last_match sd labels [] = None"
  by (simp_all add: last_match_def)

lemma last_match_Cons:
  "last_match sd (l # ls) (t # ts) =
     (case last_match sd ls ts of
        Some v \<Rightarrow> Some v
      | None \<Rightarrow> if lower l = sd then Some t else None)"
  by (auto simp: last_match_def split: list.splits)

lemma match_outcomes_arrays:
  "match_outcomes L (JArr toks) i (map JStr labels) res =
     res\<lparr>yes := (case last_match ''yes'' labels (drop i toks) of
                    None \<Rightarrow> yes res | Some t \<Rightarrow> Some (py_str L t)),
          no := (case last_match ''no'' labels (drop i toks) of
                    None \<Rightarrow> no res | Some t \<Rightarrow> Some (py_str L t))\<rparr>"
proof (induction labels arbitrary: i res)
  case Nil
  show ?case by simp
next
  case (Cons l ls)
  show ?case
  proof (cases "i < length toks")
    case False
    then show ?thesis using Cons.IH [of "Suc i" res]
      by (simp add: py_len_def)
  next
    case True
    then have d: "drop i toks = toks ! i # drop (Suc i) toks"
      by (simp add: Cons_nth_drop_Suc)
    show ?thesis
      using True Cons.IH [of "Suc i"]
      by (simp add: py_len_def py_lower_def py_index_def d last_match_Cons split: option.splits)
  qed
qed

lemma last_match_None:
  "last_match sd labels toks = None \<longleftrightarrow>
     (\<forall>i < min (length labels) (length toks). lower (labels ! i) \<noteq> sd)"
proof (induction labels arbitrary: toks)
  case Nil show ?case by simp
next
  case (Cons l ls)
  show ?case
  proof (cases toks)
    case Nil then show ?thesis by simp
  next
    case (Cons t ts)
    show ?thesis unfolding Cons last_match_Cons
      using Cons.IH[of ts]
      by (auto simp: All_less_Suc2 split: option.splits)
  qed
qed

lemma last_match_Some:
  "last_match sd labels toks = Some v \<longleftrightarrow>
     (\<exists>i < min (length labels) (length toks).
        lower (labels ! i) = sd \<and> v = toks ! i \<and>
        (\<forall>j < min (length labels) (length toks). i < j \<longrightarrow> lower (labels ! j) \<noteq> sd))"
proof (induction labels arbitrary: toks)
  case Nil show ?case by simp
next
  case (Cons l ls)
  show ?case
  proof (cases toks)
    case Nil then show ?thesis by simp
  next
    case (Cons t ts)
    show ?thesis unfolding Cons last_match_Cons
      using Cons.IH[of ts] last_match_None[of sd ls ts]
      apply (simp add: Ex_less_Suc2 All_less_Suc2 split: option.splits)
      apply auto
      done
  qed
qed

lemma get_token_ids_parsed:
  assumes "parsed_arrays L market labels toks"
  shows "get_token_ids L market =
     \<lparr>yes = map_option (py_str L) (last_match ''yes'' labels toks),
      no = map_option (py_str L) (last_match ''no'' labels toks)\<rparr>"
proof -
  from assms obtain ts os where
    f: "dict_get market ''clobTokenIds'' = JStr ts" "dict_get market ''outcomes'' = JStr os"
    and ne: "ts \<noteq> []" "os \<noteq> []"
    and p: "json_loads L ts = Some (JArr toks)" "json_loads L os = Some (JArr (map JStr labels))"
    by (auto simp: parsed_arrays_def split: json.splits)
  show ?thesis
    by (simp add: get_token_ids_def Let_def f ne p py_loads_def py_iter_def match_outcomes_arrays
        split: option.splits)
qed

lemma lower_samples: "lower ''Yes'' = ''yes''" "lower ''No'' = ''no''" "lower ''YES'' = ''yes''"
  by code_simp+

lemmas sample_simps =
  sample_lib_def sample_loads_def sample_float_def
  sample_market_def sample_market2_def dict_get_def

text \<open>
  C1, as amended. \<open>get_token_ids\<close> returns \<open>{yes: None, no: None}\<close> whenever one of the two
  fields is missing, empty or fails to parse. Arrays of different lengths are not
  refused: when the two fields are well formed (\<open>parsed_arrays\<close>: both parse to arrays,
  and every outcome label is a string), the labels are matched over the common prefix of
  the two arrays, and the result is all-null exactly when no label of that prefix is
  \<open>yes\<close> or \<open>no\<close> once lowered.
\<close>
theorem get_token_ids_null:
  "(\<not> truthy (dict_get market ''clobTokenIds'') \<or>
    \<not> truthy (dict_get market ''outcomes'') \<or>
    py_loads L (dict_get market ''clobTokenIds'') = None \<or>
    py_loads L (dict_get market ''outcomes'') = None
      \<longrightarrow> get_token_ids L market = \<lparr>yes = None, no = None\<rparr>) \<and>
   (parsed_arrays L market labels toks \<longrightarrow>
      (get_token_ids L market = \<lparr>yes = None, no = None\<rparr> \<longleftrightarrow>
         (\<forall>i < min (length labels) (length toks).
            lower (labels ! i) \<noteq> ''yes'' \<and> lower (labels ! i) \<noteq> ''no'')))"
proof (intro conjI impI)
  assume "\<not> truthy (dict_get market ''clobTokenIds'') \<or>
    \<not> truthy (dict_get market ''outcomes'') \<or>
    py_loads L (dict_get market ''clobTokenIds'') = None \<or>
    py_loads L (dict_get market ''outcomes'') = None"
  then show "get_token_ids L market = \<lparr>yes = None, no = None\<rparr>"
    by (auto simp: get_token_ids_def Let_def split: option.splits)
next
  assume "parsed_arrays L market labels toks"
  then show "get_token_ids L market = \<lparr>yes = None, no = None\<rparr> \<longleftrightarrow>
         (\<forall>i < min (length labels) (length toks).
            lower (labels ! i) \<noteq> ''yes'' \<and> lower (labels ! i) \<noteq> ''no'')"
    by (auto simp: get_token_ids_parsed last_match_None)
qed

theorem get_token_ids_null_witness:
  "get_token_ids sample_lib
     [(''outcomes'', JStr ''not an array''), (''clobTokenIds'', JStr ''[\"111\", \"222\"]'')]
     = \<lparr>yes = None, no = None\<rparr> \<and>
   parsed_arrays sample_lib sample_market [''Yes'', ''No''] [JStr ''111'', JStr ''222''] \<and>
   get_token_ids sample_lib sample_market \<noteq> \<lparr>yes = None, no = None\<rparr>"
proof -
  have a: "py_loads sample_lib (dict_get
     [(''outcomes'', JStr ''not an array''), (''clobTokenIds'', JStr ''[\"111\", \"222\"]'')]
     ''outcomes'') = None"
    by (simp add: py_loads_def sample_simps)
  have b: "parsed_arrays sample_lib sample_market [''Yes'', ''No''] [JStr ''111'', JStr ''222'']"
    by (simp add: parsed_arrays_def sample_simps)
  have c: "\<not> (\<forall>i < min (length [''Yes'', ''No'']) (length [JStr ''111'', JStr ''222'']).
            lower ([''Yes'', ''No''] ! i) \<noteq> ''yes'' \<and> lower ([''Yes'', ''No''] ! i) \<noteq> ''no'')"
    by (simp add: All_less_Suc2 lower_samples)
  show ?thesis
    using get_token_ids_null [where L = sample_lib and market =
        "[(''outcomes'', JStr ''not an array''), (''clobTokenIds'', JStr ''[\"111\", \"222\"]'')]"]
      get_token_ids_null [where L = sample_lib and market = sample_market
        and labels = "[''Yes'', ''No'']" and toks = "[JStr ''111'', JStr ''222'']"]
      a b c by blast
qed

theorem get_token_ids_mismatch_counterexample:
  "parsed_arrays sample_lib
     [(''outcomes'', JStr ''[\"Yes\", \"No\"]''), (''clobTokenIds'', JStr ''[\"111\"]'')]
     [''Yes'', ''No''] [JStr ''111''] \<and>
   length [''Yes'', ''No''] \<noteq> length [JStr ''111''] \<and>
   get_token_ids sample_lib
     [(''outcomes'', JStr ''[\"Yes\", \"No\"]''), (''clobTokenIds'', JStr ''[\"111\"]'')]
     = \<lparr>yes = Some ''111'', no = None\<rparr>"
  by (simp add: parsed_arrays_def get_token_ids_def py_loads_def sample_simps
      py_iter_def py_len_def py_lower_def py_index_def py_str_def lower_samples)

text \<open>
  C2, as amended. On well-formed arrays a side gets a contract id exactly when a label of
  the common prefix equals \<open>yes\<close> (or \<open>no\<close>) once lowered, with nothing stripped, and the
  id is the one at the index of the last such label: a later match overwrites an
  earlier one.
\<close>
theorem get_token_ids_last_wins:
  "parsed_arrays L market labels toks \<Longrightarrow>
     (yes (get_token_ids L market) = Some v \<longleftrightarrow>
        (\<exists>i < min (length labels) (length toks).
           lower (labels ! i) = ''yes'' \<and> v = py_str L (toks ! i) \<and>
           (\<forall>j < min (length labels) (length toks). i < j \<longrightarrow> lower (labels ! j) \<noteq> ''yes''))) \<and>
     (no (get_token_ids L market) = Some v \<longleftrightarrow>
        (\<exists>i < min (length labels) (length toks).
           lower (labels ! i) = ''no'' \<and> v = py_str L (toks ! i) \<and>
           (\<forall>j < min (length labels) (length toks). i < j \<longrightarrow> lower (labels ! j) \<noteq> ''no'')))"
  by (auto simp: get_token_ids_parsed last_match_Some)

theorem get_token_ids_last_wins_witness:
  "parsed_arrays sample_lib sample_market [''Yes'', ''No''] [JStr ''111'', JStr ''222''] \<and>
   yes (get_token_ids sample_lib sample_market) = Some ''111'' \<and>
   no (get_token_ids sample_lib sample_market) = Some ''222''"
proof -
  have p: "parsed_arrays sample_lib sample_market [''Yes'', ''No''] [JStr ''111'', JStr ''222'']"
    by (simp add: parsed_arrays_def sample_simps)
  show ?thesis
    using get_token_ids_last_wins [OF p, of "''111''"] get_token_ids_last_wins [OF p, of "''222''"] p
    by (simp add: Ex_less_Suc2 All_less_Suc2 lower_samples py_str_def)
qed

theorem get_token_ids_first_match_counterexample:
  "parsed_arrays sample_lib
     [(''outcomes'', JStr ''[\"Yes\", \"YES\"]''), (''clobTokenIds'', JStr ''[\"111\", \"222\"]'')]
     [''Yes'', ''YES''] [JStr ''111'', JStr ''222''] \<and>
   lower ''Yes'' = ''yes'' \<and> lower ''YES'' = ''yes'' \<and>
   yes (get_token_ids sample_lib
     [(''outcomes'', JStr ''[\"Yes\", \"YES\"]''), (''clobTokenIds'', JStr ''[\"111\", \"222\"]'')])
     = Some ''222''"
  by (simp add: parsed_arrays_def get_token_ids_def py_loads_def sample_simps
      py_iter_def py_len_def py_lower_def py_index_def py_str_def lower_samples)


section \<open>Properties of the PositionLedger\<close>



section \<open>Properties of the OrderBookAnalyzer\<close>








lemma sample_summaries:
  "summarize sample_lib (Some sample_book) =
     Some \<lparr>ask = 0.95, bid = 0.94, spread = 0.95 - 0.94, depth = 100\<rparr>"
  "summarize sample_lib (Some crossed_book) =
     Some \<lparr>ask = 0.5, bid = 0.6, spread = 0.5 - 0.6, depth = 0\<rparr>"
  by (simp_all add: summarize_def sample_book_def crossed_book_def py_float_def
      sample_lib_def sample_float_def)




section \<open>Properties of the Sizer/Executor\<close>

text \<open>
  C7. For an opportunity with a non-zero price (every opportunity \<open>find_opps\<close> builds has
  one), \<open>place_trade\<close> takes the stake \<open>min(capital * POSITION_SIZE_PCT, MAX_POSITION_SIZE)\<close>.
  When the stake is below 0.50 it returns \<open>None\<close> and hands nothing to the exchange;
  otherwise it hands over exactly one order, a buy of \<open>stake / price\<close> units at the price,
  and returns the order id of the response. So no order is submitted exactly when the
  stake is below 0.50. With the constants 0.10 and 10, a capital of 50 gives the stake 5,
  200 gives 10 and 2 gives 0.2.
\<close>
theorem place_trade_sizing:
  "opp_price opp \<noteq> 0 \<Longrightarrow>
     (stake_of capital < 0.50 \<longrightarrow> place_trade E opp capital w = (Inr JNull, w)) \<and>
     (\<not> stake_of capital < 0.50 \<longrightarrow>
        (\<exists>resp x'.
           post_order E \<lparr>token_id = opp_no opp, order_price = opp_price opp,
                          order_size = stake_of capital / opp_price opp,
                          side = ''BUY'', fee_rate_bps = 0\<rparr> (ext w) = (resp, x') \<and>
           place_trade E opp capital w =
             (Inr (order_id resp),
              w\<lparr>ext := x',
                submitted := submitted w @
                  [(\<lparr>token_id = opp_no opp, order_price = opp_price opp,
                     order_size = stake_of capital / opp_price opp,
                     side = ''BUY'', fee_rate_bps = 0\<rparr>, resp)]\<rparr>))) \<and>
     (submitted (snd (place_trade E opp capital w)) = submitted w \<longleftrightarrow> stake_of capital < 0.50) \<and>
     stake_of capital = min (capital * POSITION_SIZE_PCT) MAX_POSITION_SIZE \<and>
     POSITION_SIZE_PCT = 0.10 \<and> MAX_POSITION_SIZE = 10 \<and>
     stake_of 50 = 5 \<and> stake_of 200 = 10 \<and> stake_of 2 = 0.2"
proof -
  assume p: "opp_price opp \<noteq> 0"
  have skip: "stake_of capital < 0.50 \<Longrightarrow> place_trade E opp capital w = (Inr JNull, w)"
    using p by (simp add: place_trade_def Let_def)
  have sub: "\<not> stake_of capital < 0.50 \<Longrightarrow>
        (\<exists>resp x'.
           post_order E \<lparr>token_id = opp_no opp, order_price = opp_price opp,
                          order_size = stake_of capital / opp_price opp,
                          side = ''BUY'', fee_rate_bps = 0\<rparr> (ext w) = (resp, x') \<and>
           place_trade E opp capital w =
             (Inr (order_id resp),
              w\<lparr>ext := x',
                submitted := submitted w @
                  [(\<lparr>token_id = opp_no opp, order_price = opp_price opp,
                     order_size = stake_of capital / opp_price opp,
                     side = ''BUY'', fee_rate_bps = 0\<rparr>, resp)]\<rparr>))"
    using p by (simp add: place_trade_def Let_def split: prod.splits)
  have iff: "submitted (snd (place_trade E opp capital w)) = submitted w \<longleftrightarrow> stake_of capital < 0.50"
  proof (cases "stake_of capital < 0.50")
    case True
    then show ?thesis using skip by simp
  next
    case False
    from sub [OF False] show ?thesis using False by auto
  qed
  have nums: "stake_of 50 = 5" "stake_of 200 = 10" "stake_of 2 = 0.2"
    by (simp_all add: stake_of_def POSITION_SIZE_PCT_def MAX_POSITION_SIZE_def)
  show ?thesis
    using skip sub iff nums
    by (simp add: stake_of_def POSITION_SIZE_PCT_def MAX_POSITION_SIZE_def)
qed

theorem place_trade_sizing_witness:
  "opp_price sample_opp \<noteq> 0 \<and>
   place_trade sample_env sample_opp 2 sample_world = (Inr JNull, sample_world) \<and>
   place_trade sample_env sample_opp 50 sample_world =
     (Inr (JStr ''0xabc''),
      sample_world\<lparr>ext := 1,
        submitted :=
          [(\<lparr>token_id = ''222'', order_price = 0.95, order_size = 5 / 0.95,
             side = ''BUY'', fee_rate_bps = 0\<rparr>,
            Some (JObj [(''orderID'', JStr ''0xabc'')]))]\<rparr>)"
proof -
  have p: "opp_price sample_opp \<noteq> 0" by (simp add: sample_opp_def)
  have s: "stake_of 2 < 0.50" "\<not> stake_of 50 < 0.50" "stake_of 50 = 5"
    by (simp_all add: stake_of_def POSITION_SIZE_PCT_def MAX_POSITION_SIZE_def)
  have a: "place_trade sample_env sample_opp 2 sample_world = (Inr JNull, sample_world)"
    using place_trade_sizing [OF p, of 2 sample_env sample_world] s(1) by blast
  have "\<exists>resp x'.
           post_order sample_env \<lparr>token_id = opp_no sample_opp, order_price = opp_price sample_opp,
                          order_size = stake_of 50 / opp_price sample_opp,
                          side = ''BUY'', fee_rate_bps = 0\<rparr> (ext sample_world) = (resp, x') \<and>
           place_trade sample_env sample_opp 50 sample_world =
             (Inr (order_id resp),
              sample_world\<lparr>ext := x',
                submitted := submitted sample_world @
                  [(\<lparr>token_id = opp_no sample_opp, order_price = opp_price sample_opp,
                     order_size = stake_of 50 / opp_price sample_opp,
                     side = ''BUY'', fee_rate_bps = 0\<rparr>, resp)]\<rparr>)"
    using place_trade_sizing [OF p, of 50 sample_env sample_world] s(2) by blast
  then have b: "place_trade sample_env sample_opp 50 sample_world =
     (Inr (JStr ''0xabc''),
      sample_world\<lparr>ext := 1,
        submitted :=
          [(\<lparr>token_id = ''222'', order_price = 0.95, order_size = 5 / 0.95,
             side = ''BUY'', fee_rate_bps = 0\<rparr>,
            Some (JObj [(''orderID'', JStr ''0xabc'')]))]\<rparr>)"
    by (auto simp: s(3) sample_opp_def sample_env_def sample_world_def order_id_def dict_get_def)
  from p a b show ?thesis by simp
qed

section \<open>Properties of the OpportunityRanker\<close>

lemma scan_markets_Cons_cases:
  assumes "scan_markets E L ledger (m # ms) x = (opps, x')"
  obtains (skip) r where "scan_markets E L ledger ms r = (opps, x')"
  | (take) tid ob x1 opps' where
      "get_token_ids L m = \<lparr>yes = yes (get_token_ids L m), no = Some tid\<rparr>"
      "tid \<noteq> []" "tid \<notin> dict_keys ledger"
      "analyze_ob E L tid x = (Some ob, x1)"
      "0.90 \<le> ask ob" "ask ob \<le> 0.98"
      "scan_markets E L ledger ms x1 = (opps', x')"
      "opps = \<lparr>opp_market = m, opp_ob = ob, opp_yes = yes (get_token_ids L m),
                opp_no = tid, opp_yield = (1 - ask ob) / ask ob, opp_price = ask ob\<rparr> # opps'"
proof (cases "no (get_token_ids L m)")
  case None
  with assms skip show ?thesis by simp
next
  case (Some tid)
  then have t: "get_token_ids L m = \<lparr>yes = yes (get_token_ids L m), no = Some tid\<rparr>"
    by simp
  show ?thesis
  proof (cases "tid = [] \<or> tid \<in> dict_keys ledger")
    case True
    with assms Some skip show ?thesis by auto
  next
    case False
    obtain r x1 where a: "analyze_ob E L tid x = (r, x1)" by (cases "analyze_ob E L tid x")
    show ?thesis
    proof (cases r)
      case None
      with assms Some False a skip show ?thesis by auto
    next
      case (Some ob)
      obtain opps' x2 where rest: "scan_markets E L ledger ms x1 = (opps', x2)"
        by (cases "scan_markets E L ledger ms x1")
      show ?thesis
      proof (cases "\<not> (spread ob > MAX_SPREAD \<or> depth ob < MIN_DEPTH) \<and>
                     0.90 \<le> ask ob \<and> ask ob \<le> 0.98 \<and> (1 - ask ob) / ask ob \<ge> MIN_YIELD")
        case True
        with assms \<open>no (get_token_ids L m) = Some tid\<close> False a Some rest
        have "opps = \<lparr>opp_market = m, opp_ob = ob, opp_yes = yes (get_token_ids L m),
                opp_no = tid, opp_yield = (1 - ask ob) / ask ob, opp_price = ask ob\<rparr> # opps'"
          and "x2 = x'"
          by (auto simp: Let_def)
        with take [OF t _ _ _ _ _ _ this(1), of x1] False a Some rest True show ?thesis
          by auto
      next
        case no: False
        with assms \<open>no (get_token_ids L m) = Some tid\<close> False a Some rest
        have "scan_markets E L ledger ms x1 = (opps, x')"
          by (auto simp: Let_def split: if_splits)
        with skip show ?thesis by blast
      qed
    qed
  qed
qed

lemma scan_markets_opps:
  "scan_markets E L ledger markets x = (opps, x') \<Longrightarrow> p \<in> set opps \<Longrightarrow>
     opp_no p \<notin> dict_keys ledger \<and> opp_no p \<noteq> [] \<and>
     0.90 \<le> opp_price p \<and> opp_price p \<le> 0.98 \<and>
     opp_price p = ask (opp_ob p) \<and>
     opp_yield p = (1 - opp_price p) / opp_price p \<and>
     opp_market p \<in> set markets \<and>
     get_token_ids L (opp_market p) = \<lparr>yes = opp_yes p, no = Some (opp_no p)\<rparr> \<and>
     (\<exists>x0. fst (analyze_ob E L (opp_no p) x0) = Some (opp_ob p))"
proof (induction markets arbitrary: x opps)
  case Nil
  then show ?case by simp
next
  case (Cons m ms)
  from Cons.prems(1) show ?case
  proof (cases rule: scan_markets_Cons_cases)
    case (skip r)
    from Cons.IH [OF this Cons.prems(2)] show ?thesis by simp
  next
    case (take tid ob x1 opps')
    show ?thesis
    proof (cases "p \<in> set opps'")
      case True
      from Cons.IH [OF take(7) True] show ?thesis by simp
    next
      case False
      with Cons.prems(2) take(8)
      have "p = \<lparr>opp_market = m, opp_ob = ob, opp_yes = yes (get_token_ids L m),
                   opp_no = tid, opp_yield = (1 - ask ob) / ask ob, opp_price = ask ob\<rparr>"
        by simp
      then show ?thesis
        using take(1-6) by (auto intro: exI [of _ x])
    qed
  qed
qed

lemma scan_markets_subseq:
  "scan_markets E L ledger markets x = (opps, x') \<Longrightarrow> subseq (map opp_market opps) markets"
proof (induction markets arbitrary: x opps)
  case Nil
  then show ?case by simp
next
  case (Cons m ms)
  from Cons.prems(1) show ?case
  proof (cases rule: scan_markets_Cons_cases)
    case (skip r)
    from Cons.IH [OF this] show ?thesis by (rule list_emb_Cons)
  next
    case (take tid ob x1 opps')
    from Cons.IH [OF take(7)] take(8) show ?thesis by simp
  qed
qed

lemma fst_find_opps:
  "fst (find_opps E L markets ledger x) = sort_desc (fst (scan_markets E L ledger markets x))"
  by (simp add: find_opps_def case_prod_beta)

lemma set_find_opps:
  "set (fst (find_opps E L markets ledger x)) = set (fst (scan_markets E L ledger markets x))"
  by (simp add: fst_find_opps sort_desc_def)

text \<open>
  C5. Every opportunity \<open>find_opps\<close> returns comes from a market of the input whose
  \<open>no\<close> contract id is not a key of the ledger, and its price is the best ask of a book
  fetched for that contract and lies in [0.90, 0.98].
\<close>
theorem find_opps_excludes:
  "p \<in> set (fst (find_opps E L markets ledger x)) \<Longrightarrow>
     opp_no p \<notin> dict_keys ledger \<and>
     0.90 \<le> opp_price p \<and> opp_price p \<le> 0.98 \<and>
     opp_price p = ask (opp_ob p) \<and>
     opp_market p \<in> set markets \<and>
     no (get_token_ids L (opp_market p)) = Some (opp_no p) \<and>
     (\<exists>x0. fst (analyze_ob E L (opp_no p) x0) = Some (opp_ob p))"
proof -
  assume "p \<in> set (fst (find_opps E L markets ledger x))"
  then have "p \<in> set (fst (scan_markets E L ledger markets x))"
    by (simp add: set_find_opps)
  from scan_markets_opps [OF surjective_pairing this] show ?thesis
    by simp
qed


lemma sample_tids:
  "get_token_ids sample_lib sample_market = \<lparr>yes = Some ''111'', no = Some ''222''\<rparr>"
  "get_token_ids sample_lib sample_market2 = \<lparr>yes = Some ''333'', no = Some ''444''\<rparr>"
  by (simp_all add: get_token_ids_def py_loads_def sample_simps
      py_iter_def py_len_def py_lower_def py_index_def py_str_def lower_samples)

lemma sample_analyze:
  "analyze_ob sample_env sample_lib tid x =
     (Some \<lparr>ask = 0.95, bid = 0.94, spread = 0.95 - 0.94, depth = 100\<rparr>, x)"
  by (simp add: analyze_ob_def sample_env_def sample_summaries)

lemma sample_scan:
  "scan_markets sample_env sample_lib [] [sample_market, sample_market2] 0 =
     ([sample_opp,
       \<lparr>opp_market = sample_market2,
        opp_ob = \<lparr>ask = 0.95, bid = 0.94, spread = 0.95 - 0.94, depth = 100\<rparr>,
        opp_yes = Some ''333'', opp_no = ''444'',
        opp_yield = (1.0 - 0.95) / 0.95, opp_price = 0.95\<rparr>], 0)"
  "scan_markets sample_env sample_lib [] [sample_market] 0 = ([sample_opp], 0)"
  "scan_markets sample_env sample_lib [(''222'', JObj [])] [sample_market] 0 = ([], 0)"
  by (simp_all add: sample_tids sample_analyze sample_opp_def dict_keys_def Let_def
      MAX_SPREAD_def MIN_DEPTH_def MIN_YIELD_def)

theorem find_opps_excludes_witness:
  "sample_opp \<in> set (fst (find_opps sample_env sample_lib [sample_market] [] 0)) \<and>
   opp_no sample_opp \<notin> dict_keys [] \<and>
   0.90 \<le> opp_price sample_opp \<and> opp_price sample_opp \<le> 0.98 \<and>
   no (get_token_ids sample_lib (opp_market sample_opp)) = Some (opp_no sample_opp) \<and>
   fst (find_opps sample_env sample_lib [sample_market] [(''222'', JObj [])] 0) = []"
proof -
  have m: "sample_opp \<in> set (fst (find_opps sample_env sample_lib [sample_market] [] 0))"
    by (simp add: find_opps_def sample_scan sort_desc_def del: scan_markets.simps)
  have e: "fst (find_opps sample_env sample_lib [sample_market] [(''222'', JObj [])] 0) = []"
    by (simp add: find_opps_def sample_scan sort_desc_def del: scan_markets.simps)
  from find_opps_excludes [OF m] m e show ?thesis by blast
qed

text \<open>
  C6, as amended. The list \<open>find_opps\<close> returns is in descending order of yield, equal
  yields allowed: no opportunity is followed by one of greater yield. The opportunities of
  any one yield stand in the order in which the scan of the catalog found them, which is
  the order of their markets in the catalog.
\<close>
theorem find_opps_sorted_stable:
  "sorted_wrt (\<lambda>a b. opp_yield a \<ge> opp_yield b) (fst (find_opps E L markets ledger x)) \<and>
   filter (\<lambda>p. opp_yield p = y) (fst (find_opps E L markets ledger x)) =
     filter (\<lambda>p. opp_yield p = y) (fst (scan_markets E L ledger markets x)) \<and>
   subseq (map opp_market (fst (scan_markets E L ledger markets x))) markets"
proof (intro conjI)
  have "sorted (map (\<lambda>p. - opp_yield p) (sort_desc (fst (scan_markets E L ledger markets x))))"
    unfolding sort_desc_def by (rule sorted_sort_key)
  then show "sorted_wrt (\<lambda>a b. opp_yield a \<ge> opp_yield b) (fst (find_opps E L markets ledger x))"
    by (simp add: fst_find_opps sorted_map)
next
  have "filter (\<lambda>p. - opp_yield p = - y) (sort_desc (fst (scan_markets E L ledger markets x))) =
        filter (\<lambda>p. - opp_yield p = - y) (fst (scan_markets E L ledger markets x))"
    unfolding sort_desc_def by (rule sort_key_stable)
  then show "filter (\<lambda>p. opp_yield p = y) (fst (find_opps E L markets ledger x)) =
     filter (\<lambda>p. opp_yield p = y) (fst (scan_markets E L ledger markets x))"
    by (simp add: fst_find_opps)
next
  show "subseq (map opp_market (fst (scan_markets E L ledger markets x))) markets"
    by (rule scan_markets_subseq [OF surjective_pairing])
qed

theorem find_opps_sorted_stable_witness:
  "map opp_no (fst (find_opps sample_env sample_lib [sample_market, sample_market2] [] 0)) =
     [''222'', ''444''] \<and>
   sorted_wrt (\<lambda>a b. opp_yield a \<ge> opp_yield b)
     (fst (find_opps sample_env sample_lib [sample_market, sample_market2] [] 0)) \<and>
   map opp_no (filter (\<lambda>p. opp_yield p = 1 / 19)
     (fst (find_opps sample_env sample_lib [sample_market, sample_market2] [] 0))) =
     [''222'', ''444'']"
proof -
  have "map opp_no (fst (find_opps sample_env sample_lib [sample_market, sample_market2] [] 0)) =
     [''222'', ''444'']"
    by (simp add: find_opps_def sample_scan sort_desc_def sample_opp_def del: scan_markets.simps)
  with find_opps_sorted_stable [of sample_env sample_lib "[sample_market, sample_market2]" "[]" 0 "1 / 19"]
  show ?thesis
    by (simp add: sample_scan sample_opp_def del: scan_markets.simps)
qed

theorem find_opps_ties_counterexample:
  "map opp_yield (fst (find_opps sample_env sample_lib [sample_market, sample_market2] [] 0)) =
     [1 / 19, 1 / 19] \<and>
   \<not> sorted_wrt (\<lambda>a b. opp_yield a > opp_yield b)
     (fst (find_opps sample_env sample_lib [sample_market, sample_market2] [] 0))"
  by (simp add: find_opps_def sample_scan sort_desc_def sample_opp_def del: scan_markets.simps)


section \<open>Properties of the execution loop\<close>

lemma ledger_file_get_balance [simp]: "ledger_file (snd (get_balance E w)) = ledger_file w"
  and submitted_get_balance [simp]: "submitted (snd (get_balance E w)) = submitted w"
  by (simp_all add: get_balance_def case_prod_beta)

lemma save_positions_cases:
  "save_positions L ps w =
     (if ledger_file w = Inaccessible then (Some OSError, w)
      else (None, w\<lparr>ledger_file := Content (json_dumps L (JObj ps))\<rparr>))"
  by (simp add: save_positions_def split: file_state.splits)

lemma place_trade_cases:
  assumes "place_trade E opp bal w = (r, w1)"
  shows "(w1 = w \<and> (r = Inr JNull \<or> r = Inl ZeroDivisionError)) \<or>
         (\<exists>ord resp. token_id ord = opp_no opp \<and> r = Inr (order_id resp) \<and>
            submitted w1 = submitted w @ [(ord, resp)])"
  using assms
  by (auto simp: place_trade_def Let_def split: if_splits prod.splits)

lemma exec_step_skip:
  "opp_no opp \<in> dict_keys (positions s) \<Longrightarrow> exec_step E L opp (s, w) = (None, s, w)"
  by (simp add: exec_step_def)

lemma exec_step_cases:
  assumes "exec_step E L opp (s, w) = (e, s', w')"
  shows "(submitted w' = submitted w \<and> positions s' = positions s) \<or>
         (\<exists>ord resp. opp_no opp \<notin> dict_keys (positions s) \<and> token_id ord = opp_no opp \<and>
            submitted w' = submitted w @ [(ord, resp)] \<and>
            (if truthy (order_id resp)
             then \<exists>v. positions s' = AList.update (opp_no opp) v (positions s)
             else positions s' = positions s))"
proof (cases "opp_no opp \<in> dict_keys (positions s) \<or>
    \<not> sliceable (dict_get_default (opp_market opp) ''question'' (JStr ''Unknown''))")
  case True
  with assms have "s' = s \<and> w' = w"
    by (auto simp: exec_step_def Let_def split: if_splits)
  then show ?thesis by simp
next
  case False
  obtain r w1 where pt: "place_trade E opp (balance s) w = (r, w1)"
    by (cases "place_trade E opp (balance s) w")
  from place_trade_cases [OF pt] show ?thesis
  proof
    assume "w1 = w \<and> (r = Inr JNull \<or> r = Inl ZeroDivisionError)"
    with assms False pt have "s' = s \<and> w' = w"
      by (auto simp: exec_step_def Let_def split: if_splits)
    then show ?thesis by simp
  next
    assume "\<exists>ord resp. token_id ord = opp_no opp \<and> r = Inr (order_id resp) \<and>
            submitted w1 = submitted w @ [(ord, resp)]"
    then obtain ord resp where o: "token_id ord = opp_no opp" "r = Inr (order_id resp)"
      "submitted w1 = submitted w @ [(ord, resp)]" by blast
    with assms False pt
    have "submitted w' = submitted w @ [(ord, resp)]"
      and "if truthy (order_id resp)
           then \<exists>v. positions s' = AList.update (opp_no opp) v (positions s)
           else positions s' = positions s"
      by (auto simp: exec_step_def Let_def save_positions_cases case_prod_beta
          split: if_splits)
    with False o(1) show ?thesis by blast
  qed
qed

lemma loop_inv_Nil: "loop_inv opps s s []"
  by (simp add: loop_inv_def)

lemma loop_inv_same:
  "positions s1 = positions s \<Longrightarrow> loop_inv opps s1 s' evs \<Longrightarrow> loop_inv (opp # opps) s s' evs"
  by (auto simp: loop_inv_def)

lemma loop_inv_order:
  assumes k: "opp_no opp \<notin> dict_keys (positions s)"
    and t: "token_id ord = opp_no opp"
    and u: "if truthy (order_id resp)
            then \<exists>v. positions s1 = AList.update (opp_no opp) v (positions s)
            else positions s1 = positions s"
    and i: "loop_inv opps s1 s' evs"
  shows "loop_inv (opp # opps) s s' ((ord, resp) # evs)"
proof (cases "truthy (order_id resp)")
  case False
  with u have same: "positions s1 = positions s" by simp
  have nr: "\<not> recorded tid (ord, resp)" for tid
    using False by (simp add: recorded_def)
  show ?thesis
    using i k t same nr by (auto simp: loop_inv_def)
next
  case True
  with u obtain v where up: "positions s1 = AList.update (opp_no opp) v (positions s)" by auto
  then have keys: "dict_keys (positions s1) = insert (opp_no opp) (dict_keys (positions s))"
    by (simp add: dict_keys_def AList.dom_update)
  have rec: "recorded tid (ord, resp) \<longleftrightarrow> tid = opp_no opp" for tid
    using True t by (auto simp: recorded_def)
  have none: "filter (recorded (opp_no opp)) evs = []"
    using i keys by (auto simp: loop_inv_def recorded_def filter_empty_conv)
  have d: "distinct (map fst (positions s)) \<longrightarrow> distinct (map fst (positions s1))"
    by (simp add: up distinct_update)
  have "subseq (map (\<lambda>p. token_id (fst p)) ((ord, resp) # evs)) (map opp_no (opp # opps))"
    using i t by (simp add: loop_inv_def)
  moreover have "length (filter (recorded tid) ((ord, resp) # evs)) \<le> 1" for tid
    using i none by (cases "tid = opp_no opp") (simp_all add: rec loop_inv_def)
  moreover have "\<forall>p \<in> set ((ord, resp) # evs). token_id (fst p) \<notin> dict_keys (positions s)"
    using i k t keys by (auto simp: loop_inv_def)
  moreover have "dict_keys (positions s') =
      dict_keys (positions s) \<union> {tid. \<exists>p \<in> set ((ord, resp) # evs). recorded tid p}"
    using i keys rec by (auto simp: loop_inv_def)
  moreover have "distinct (map fst (positions s)) \<longrightarrow> distinct (map fst (positions s'))"
    using i d by (simp add: loop_inv_def)
  ultimately show ?thesis
    unfolding loop_inv_def by blast
qed

lemma exec_loop_inv:
  "exec_loop E L opps (s, w) = (e, s', w') \<Longrightarrow>
     \<exists>evs. submitted w' = submitted w @ evs \<and> loop_inv opps s s' evs"
proof (induction opps arbitrary: s w)
  case Nil
  then show ?case using loop_inv_Nil [of "[]" s] by simp
next
  case (Cons opp opps)
  obtain e1 s1 w1 where st: "exec_step E L opp (s, w) = (e1, s1, w1)"
    by (cases "exec_step E L opp (s, w)")
  have rest: "\<exists>evs2. submitted w' = submitted w1 @ evs2 \<and> loop_inv opps s1 s' evs2"
  proof (cases e1)
    case None
    with Cons.prems st have "exec_loop E L opps (s1, w1) = (e, s', w')" by simp
    from Cons.IH [OF this] show ?thesis .
  next
    case (Some x)
    with Cons.prems st have "s' = s1" "w' = w1" by simp_all
    then show ?thesis using loop_inv_Nil [of opps s1] by simp
  qed
  then obtain evs2 where r: "submitted w' = submitted w1 @ evs2" "loop_inv opps s1 s' evs2"
    by blast
  from exec_step_cases [OF st] show ?case
  proof
    assume "submitted w1 = submitted w \<and> positions s1 = positions s"
    with r loop_inv_same [of s1 s opps s' evs2 opp] show ?thesis by auto
  next
    assume "\<exists>ord resp. opp_no opp \<notin> dict_keys (positions s) \<and> token_id ord = opp_no opp \<and>
            submitted w1 = submitted w @ [(ord, resp)] \<and>
            (if truthy (order_id resp)
             then \<exists>v. positions s1 = AList.update (opp_no opp) v (positions s)
             else positions s1 = positions s)"
    then obtain ord resp where o: "opp_no opp \<notin> dict_keys (positions s)" "token_id ord = opp_no opp"
      "submitted w1 = submitted w @ [(ord, resp)]"
      "if truthy (order_id resp)
             then \<exists>v. positions s1 = AList.update (opp_no opp) v (positions s)
             else positions s1 = positions s"
      by blast
    from loop_inv_order [OF o(1,2,4) r(2)] r(1) o(3) show ?thesis by auto
  qed
qed

lemma execute_top_inv:
  assumes "execute_top E L opps (s, w) = (e, s', w')"
  shows "submitted w' = submitted w @ new_orders w w' \<and>
         loop_inv (take 3 opps) s s' (new_orders w w')"
proof -
  from assms have "exec_loop E L (take 3 opps) (s, w) = (e, s', w')"
    by (simp add: execute_top_def)
  from exec_loop_inv [OF this] obtain evs where
    "submitted w' = submitted w @ evs" "loop_inv (take 3 opps) s s' evs"
    by blast
  then show ?thesis by (simp add: new_orders_def)
qed

text \<open>
  C10. In one run of the loop at most one order per contract id is recorded as a position,
  whatever the opportunities are: an opportunity whose contract id is a key of the ledger
  is skipped with nothing sent, no order is sent for a contract id the ledger held at the
  start, the keys the ledger gains are exactly those of the recorded orders, and the
  ledger keeps one entry per key.
\<close>
theorem execute_top_one_position:
  "(execute_top E L opps (s, w) = (e, s', w') \<longrightarrow>
      length (filter (recorded tid) (new_orders w w')) \<le> 1 \<and>
      (tid \<in> dict_keys (positions s) \<longrightarrow>
         filter (\<lambda>p. token_id (fst p) = tid) (new_orders w w') = []) \<and>
      dict_keys (positions s') =
        dict_keys (positions s) \<union> {t. \<exists>p \<in> set (new_orders w w'). recorded t p} \<and>
      (distinct (map fst (positions s)) \<longrightarrow> distinct (map fst (positions s')))) \<and>
   (opp_no opp \<in> dict_keys (positions s1) \<longrightarrow> exec_step E L opp (s1, w1) = (None, s1, w1))"
proof (intro conjI impI)
  assume a: "execute_top E L opps (s, w) = (e, s', w')"
  from execute_top_inv [OF a] have i: "loop_inv (take 3 opps) s s' (new_orders w w')" ..
  from i show "length (filter (recorded tid) (new_orders w w')) \<le> 1"
    by (simp add: loop_inv_def)
  from i show "dict_keys (positions s') =
        dict_keys (positions s) \<union> {t. \<exists>p \<in> set (new_orders w w'). recorded t p}"
    by (simp add: loop_inv_def)
  {
    assume "tid \<in> dict_keys (positions s)"
    with i show "filter (\<lambda>p. token_id (fst p) = tid) (new_orders w w') = []"
      by (auto simp: loop_inv_def filter_empty_conv)
  }
  {
    assume "distinct (map fst (positions s))"
    with i show "distinct (map fst (positions s'))"
      by (simp add: loop_inv_def)
  }
next
  assume "opp_no opp \<in> dict_keys (positions s1)"
  then show "exec_step E L opp (s1, w1) = (None, s1, w1)"
    by (rule exec_step_skip)
qed

theorem execute_top_one_position_witness:
  "map (\<lambda>p. token_id (fst p))
     (new_orders sample_world (snd (snd (execute_top sample_env sample_lib
        [sample_opp, sample_opp, sample_opp2] (sample_cycle, sample_world))))) =
     [''222'', ''444''] \<and>
   length (filter (recorded ''222'')
     (new_orders sample_world (snd (snd (execute_top sample_env sample_lib
        [sample_opp, sample_opp, sample_opp2] (sample_cycle, sample_world)))))) \<le> 1 \<and>
   distinct (map fst (positions (fst (snd (execute_top sample_env sample_lib
        [sample_opp, sample_opp, sample_opp2] (sample_cycle, sample_world)))))) \<and>
   filter (\<lambda>p. token_id (fst p) = ''222'')
     (new_orders sample_world (snd (snd (execute_top sample_env sample_lib
        [sample_opp, sample_opp2] (sample_cycle\<lparr>positions := [(''222'', JObj [])]\<rparr>, sample_world))))) = [] \<and>
   exec_step sample_env sample_lib sample_opp
     (sample_cycle\<lparr>positions := [(''222'', JObj [])]\<rparr>, sample_world) =
     (None, sample_cycle\<lparr>positions := [(''222'', JObj [])]\<rparr>, sample_world)"
proof -
  have a: "map (\<lambda>p. token_id (fst p))
     (new_orders sample_world (snd (snd (execute_top sample_env sample_lib
        [sample_opp, sample_opp, sample_opp2] (sample_cycle, sample_world))))) =
     [''222'', ''444'']"
    by code_simp
  have h: "distinct (map fst (positions sample_cycle))"
    "''222'' \<in> dict_keys (positions (sample_cycle\<lparr>positions := [(''222'', JObj [])]\<rparr>))"
    "opp_no sample_opp \<in> dict_keys (positions (sample_cycle\<lparr>positions := [(''222'', JObj [])]\<rparr>))"
    by (simp_all add: sample_cycle_def sample_opp_def dict_keys_def)
  note t1 = execute_top_one_position [of sample_env sample_lib
      "[sample_opp, sample_opp, sample_opp2]" sample_cycle sample_world
      "fst (execute_top sample_env sample_lib
        [sample_opp, sample_opp, sample_opp2] (sample_cycle, sample_world))"
      "fst (snd (execute_top sample_env sample_lib
        [sample_opp, sample_opp, sample_opp2] (sample_cycle, sample_world)))"
      "snd (snd (execute_top sample_env sample_lib
        [sample_opp, sample_opp, sample_opp2] (sample_cycle, sample_world)))"
      "''222''" sample_opp "sample_cycle\<lparr>positions := [(''222'', JObj [])]\<rparr>" sample_world]
  note t2 = execute_top_one_position [of sample_env sample_lib
      "[sample_opp, sample_opp2]" "sample_cycle\<lparr>positions := [(''222'', JObj [])]\<rparr>" sample_world
      "fst (execute_top sample_env sample_lib
        [sample_opp, sample_opp2] (sample_cycle\<lparr>positions := [(''222'', JObj [])]\<rparr>, sample_world))"
      "fst (snd (execute_top sample_env sample_lib
        [sample_opp, sample_opp2] (sample_cycle\<lparr>positions := [(''222'', JObj [])]\<rparr>, sample_world)))"
      "snd (snd (execute_top sample_env sample_lib
        [sample_opp, sample_opp2] (sample_cycle\<lparr>positions := [(''222'', JObj [])]\<rparr>, sample_world)))"
      "''222''" sample_opp sample_cycle sample_world]
  from t1 h have b: "length (filter (recorded ''222'')
     (new_orders sample_world (snd (snd (execute_top sample_env sample_lib
        [sample_opp, sample_opp, sample_opp2] (sample_cycle, sample_world)))))) \<le> 1"
    and c: "distinct (map fst (positions (fst (snd (execute_top sample_env sample_lib
        [sample_opp, sample_opp, sample_opp2] (sample_cycle, sample_world))))))"
    and e: "exec_step sample_env sample_lib sample_opp
     (sample_cycle\<lparr>positions := [(''222'', JObj [])]\<rparr>, sample_world) =
     (None, sample_cycle\<lparr>positions := [(''222'', JObj [])]\<rparr>, sample_world)"
    by simp_all
  from t2 h have d: "filter (\<lambda>p. token_id (fst p) = ''222'')
     (new_orders sample_world (snd (snd (execute_top sample_env sample_lib
        [sample_opp, sample_opp2] (sample_cycle\<lparr>positions := [(''222'', JObj [])]\<rparr>, sample_world))))) = []"
    by simp
  from a b c d e show ?thesis by blast
qed


section \<open>Properties of the execution loop on any ledger\<close>

lemma sample_balance: "get_balance sample_env w = (100, w)"
  by (simp add: get_balance_def sample_env_def)

lemma submitted_save_positions [simp]:
  "submitted (snd (save_positions L d w)) = submitted w"
  by (simp add: save_positions_cases)

lemma run_step_dict:
  "run_step E L opp
     (\<lparr>run_ledger = JObj (positions s), run_balance = balance s, run_trades = trades s\<rparr>, w) =
   (case exec_step E L opp (s, w) of
      (e, s', w') \<Rightarrow>
        (e, \<lparr>run_ledger = JObj (positions s'), run_balance = balance s', run_trades = trades s'\<rparr>,
         w'))"
  by (simp add: run_step_def exec_step_def py_contains_def py_setitem_def Let_def
      split: prod.splits sum.splits option.splits)

lemma run_step_orders:
  assumes "run_step E L opp (r, w) = (e, r', w')"
  shows "submitted w' = submitted w \<or>
         (\<exists>ord resp. token_id ord = opp_no opp \<and> submitted w' = submitted w @ [(ord, resp)])"
proof -
  obtain res w1 where pt: "place_trade E opp (run_balance r) w = (res, w1)"
    by (cases "place_trade E opp (run_balance r) w")
  have "submitted w' = submitted w \<or> submitted w' = submitted w1"
    using assms pt
    by (auto simp: run_step_def Let_def save_positions_cases case_prod_beta
        split: option.splits bool.splits if_splits sum.splits)
  with place_trade_cases [OF pt] show ?thesis by auto
qed

lemma run_loop_orders:
  "run_loop E L opps (r, w) = (e, r', w') \<Longrightarrow>
     \<exists>evs. submitted w' = submitted w @ evs \<and>
           subseq (map (\<lambda>p. token_id (fst p)) evs) (map opp_no opps)"
proof (induction opps arbitrary: r w)
  case Nil
  then show ?case by simp
next
  case (Cons opp opps)
  obtain e1 r1 w1 where st: "run_step E L opp (r, w) = (e1, r1, w1)"
    by (cases "run_step E L opp (r, w)")
  have "\<exists>evs2. submitted w' = submitted w1 @ evs2 \<and>
          subseq (map (\<lambda>p. token_id (fst p)) evs2) (map opp_no opps)"
  proof (cases e1)
    case None
    with Cons.prems st have "run_loop E L opps (r1, w1) = (e, r', w')" by simp
    from Cons.IH [OF this] show ?thesis .
  next
    case (Some x)
    with Cons.prems st have "w' = w1" by simp
    then show ?thesis by simp
  qed
  then obtain evs2 where r: "submitted w' = submitted w1 @ evs2"
    "subseq (map (\<lambda>p. token_id (fst p)) evs2) (map opp_no opps)" by blast
  from run_step_orders [OF st] show ?case
  proof
    assume "submitted w1 = submitted w"
    with r have "submitted w' = submitted w @ evs2 \<and>
      subseq (map (\<lambda>p. token_id (fst p)) evs2) (map opp_no (opp # opps))"
      by auto
    then show ?thesis by blast
  next
    assume "\<exists>ord resp. token_id ord = opp_no opp \<and> submitted w1 = submitted w @ [(ord, resp)]"
    then obtain ord resp where "token_id ord = opp_no opp"
      "submitted w1 = submitted w @ [(ord, resp)]" by blast
    with r have "submitted w' = submitted w @ ((ord, resp) # evs2) \<and>
      subseq (map (\<lambda>p. token_id (fst p)) ((ord, resp) # evs2)) (map opp_no (opp # opps))"
      by simp
    then show ?thesis by blast
  qed
qed

text \<open>
  C9, as amended. Whatever the ledger is, the orders one run of the loop hands to the
  exchange are for contract ids of the first three opportunities, in their order, so
  there are at most three. After a trade that returns a true order id, on a ledger that
  is a mapping, the ledger holds an entry under the traded contract id. When the ledger
  file can be written, the file then holds the dump of the updated ledger, the trade
  counter is one higher, the balance is the one read anew, and the loop goes on from
  that state. When the file cannot be written, the loop ends there with the error: the
  entry is in the ledger in memory only, and the balance is not read again.
\<close>
theorem run_top_steps:
  "(run_top E L opps (r, w) = (e, r', w') \<longrightarrow>
      subseq (map (\<lambda>p. token_id (fst p)) (new_orders w w')) (map opp_no (take 3 opps)) \<and>
      length (new_orders w w') \<le> 3) \<and>
   (run_ledger r1 = JObj d \<and> opp_no opp \<notin> dict_keys d \<and>
    sliceable (dict_get_default (opp_market opp) ''question'' (JStr ''Unknown'')) \<and>
    place_trade E opp (run_balance r1) w1 = (Inr oid, w2) \<and> truthy oid \<longrightarrow>
      (ledger_file w2 \<noteq> Inaccessible \<longrightarrow>
         (\<exists>r3 w3.
            run_step E L opp (r1, w1) = (None, r3, w3) \<and>
            run_ledger r3 =
              JObj (AList.update (opp_no opp) (position_entry E opp oid (ext w2)) d) \<and>
            ledger_file w3 = Content (json_dumps L (run_ledger r3)) \<and>
            (run_balance r3, w3) =
              get_balance E (w2\<lparr>ledger_file := Content (json_dumps L (run_ledger r3))\<rparr>) \<and>
            run_trades r3 = run_trades r1 + 1 \<and>
            run_loop E L (opp # rest) (r1, w1) = run_loop E L rest (r3, w3))) \<and>
      (ledger_file w2 = Inaccessible \<longrightarrow>
         run_loop E L (opp # rest) (r1, w1) =
           (Some OSError,
            r1\<lparr>run_ledger :=
                 JObj (AList.update (opp_no opp) (position_entry E opp oid (ext w2)) d)\<rparr>,
            w2)))"
proof (intro conjI impI)
  assume a: "run_top E L opps (r, w) = (e, r', w')"
  then have "run_loop E L (take 3 opps) (r, w) = (e, r', w')"
    by (simp add: run_top_def)
  from run_loop_orders [OF this] obtain evs where
    "submitted w' = submitted w @ evs"
    "subseq (map (\<lambda>p. token_id (fst p)) evs) (map opp_no (take 3 opps))"
    by blast
  then show sub: "subseq (map (\<lambda>p. token_id (fst p)) (new_orders w w')) (map opp_no (take 3 opps))"
    by (simp add: new_orders_def)
  from list_emb_length [OF sub] show "length (new_orders w w') \<le> 3"
    by simp
next
  assume h: "run_ledger r1 = JObj d \<and> opp_no opp \<notin> dict_keys d \<and>
    sliceable (dict_get_default (opp_market opp) ''question'' (JStr ''Unknown'')) \<and>
    place_trade E opp (run_balance r1) w1 = (Inr oid, w2) \<and> truthy oid"
    and f: "ledger_file w2 \<noteq> Inaccessible"
  obtain b w3 where g: "get_balance E
      (w2\<lparr>ledger_file := Content (json_dumps L
         (JObj (AList.update (opp_no opp) (position_entry E opp oid (ext w2)) d)))\<rparr>) = (b, w3)"
    by (cases "get_balance E
      (w2\<lparr>ledger_file := Content (json_dumps L
         (JObj (AList.update (opp_no opp) (position_entry E opp oid (ext w2)) d)))\<rparr>)")
  have lf: "ledger_file w3 = Content (json_dumps L
         (JObj (AList.update (opp_no opp) (position_entry E opp oid (ext w2)) d)))"
    using ledger_file_get_balance [of E "w2\<lparr>ledger_file := Content (json_dumps L
         (JObj (AList.update (opp_no opp) (position_entry E opp oid (ext w2)) d)))\<rparr>"] g
    by simp
  have st: "run_step E L opp (r1, w1) =
      (None,
       r1\<lparr>run_ledger := JObj (AList.update (opp_no opp) (position_entry E opp oid (ext w2)) d),
          run_trades := run_trades r1 + 1, run_balance := b\<rparr>, w3)"
    using h f g
    by (simp add: run_step_def py_contains_def py_setitem_def Let_def save_positions_cases)
  then have "run_loop E L (opp # rest) (r1, w1) = run_loop E L rest
      (r1\<lparr>run_ledger := JObj (AList.update (opp_no opp) (position_entry E opp oid (ext w2)) d),
          run_trades := run_trades r1 + 1, run_balance := b\<rparr>, w3)"
    by simp
  with st lf g show "\<exists>r3 w3.
            run_step E L opp (r1, w1) = (None, r3, w3) \<and>
            run_ledger r3 =
              JObj (AList.update (opp_no opp) (position_entry E opp oid (ext w2)) d) \<and>
            ledger_file w3 = Content (json_dumps L (run_ledger r3)) \<and>
            (run_balance r3, w3) =
              get_balance E (w2\<lparr>ledger_file := Content (json_dumps L (run_ledger r3))\<rparr>) \<and>
            run_trades r3 = run_trades r1 + 1 \<and>
            run_loop E L (opp # rest) (r1, w1) = run_loop E L rest (r3, w3)"
    by simp
next
  assume h: "run_ledger r1 = JObj d \<and> opp_no opp \<notin> dict_keys d \<and>
    sliceable (dict_get_default (opp_market opp) ''question'' (JStr ''Unknown'')) \<and>
    place_trade E opp (run_balance r1) w1 = (Inr oid, w2) \<and> truthy oid"
    and f: "ledger_file w2 = Inaccessible"
  then show "run_loop E L (opp # rest) (r1, w1) =
           (Some OSError,
            r1\<lparr>run_ledger :=
                 JObj (AList.update (opp_no opp) (position_entry E opp oid (ext w2)) d)\<rparr>,
            w2)"
    by (simp add: run_step_def py_contains_def py_setitem_def Let_def save_positions_cases)
qed

lemma sample_trade50:
  "place_trade sample_env sample_opp 50 (sample_world\<lparr>ledger_file := f\<rparr>) =
     (Inr (JStr ''0xabc''),
      sample_world\<lparr>ledger_file := f, ext := 1,
        submitted :=
          [(\<lparr>token_id = ''222'', order_price = 0.95, order_size = 5 / 0.95,
             side = ''BUY'', fee_rate_bps = 0\<rparr>,
            Some (JObj [(''orderID'', JStr ''0xabc'')]))]\<rparr>)"
  by (simp add: place_trade_def stake_of_def POSITION_SIZE_PCT_def MAX_POSITION_SIZE_def
      sample_opp_def sample_env_def sample_world_def order_id_def dict_get_def)

theorem run_top_steps_witness:
  "map (\<lambda>p. token_id (fst p))
     (new_orders sample_world (snd (snd (run_top sample_env sample_lib
        [sample_opp, sample_opp2, sample_opp3, sample_opp4] (sample_run, sample_world))))) =
     [''222'', ''444'', ''666''] \<and>
   length (new_orders sample_world (snd (snd (run_top sample_env sample_lib
        [sample_opp, sample_opp2, sample_opp3, sample_opp4] (sample_run, sample_world))))) \<le> 3 \<and>
   (\<exists>r3 w3.
      run_step sample_env sample_lib sample_opp (sample_run, sample_world) = (None, r3, w3) \<and>
      run_ledger r3 =
        JObj [(''222'', position_entry sample_env sample_opp (JStr ''0xabc'') 1)] \<and>
      ledger_file w3 = Content (json_dumps sample_lib (run_ledger r3)) \<and>
      run_balance r3 = 100 \<and> run_trades r3 = 1) \<and>
   fst (run_loop sample_env sample_lib [sample_opp, sample_opp2]
     (sample_run, sample_world\<lparr>ledger_file := Inaccessible\<rparr>)) = Some OSError"
proof -
  have a: "map (\<lambda>p. token_id (fst p))
     (new_orders sample_world (snd (snd (run_top sample_env sample_lib
        [sample_opp, sample_opp2, sample_opp3, sample_opp4] (sample_run, sample_world))))) =
     [''222'', ''444'', ''666'']"
    by code_simp
  have h: "run_ledger sample_run = JObj []" "opp_no sample_opp \<notin> dict_keys []"
    "sliceable (dict_get_default (opp_market sample_opp) ''question'' (JStr ''Unknown''))"
    "truthy (JStr ''0xabc'')" "run_balance sample_run = 50" "run_trades sample_run = 0"
    by (simp_all add: sample_run_def sample_opp_def sample_market_def
        dict_keys_def sliceable_def dict_get_default_def)
  have t: "place_trade sample_env sample_opp (run_balance sample_run) sample_world =
     (Inr (JStr ''0xabc''),
      sample_world\<lparr>ledger_file := Absent, ext := 1,
        submitted :=
          [(\<lparr>token_id = ''222'', order_price = 0.95, order_size = 5 / 0.95,
             side = ''BUY'', fee_rate_bps = 0\<rparr>,
            Some (JObj [(''orderID'', JStr ''0xabc'')]))]\<rparr>)"
    using sample_trade50 [of Absent] by (simp add: h sample_world_def)
  have t': "place_trade sample_env sample_opp (run_balance sample_run)
       (sample_world\<lparr>ledger_file := Inaccessible\<rparr>) =
     (Inr (JStr ''0xabc''),
      sample_world\<lparr>ledger_file := Inaccessible, ext := 1,
        submitted :=
          [(\<lparr>token_id = ''222'', order_price = 0.95, order_size = 5 / 0.95,
             side = ''BUY'', fee_rate_bps = 0\<rparr>,
            Some (JObj [(''orderID'', JStr ''0xabc'')]))]\<rparr>)"
    using sample_trade50 [of Inaccessible] by (simp add: h)
  note t1 = run_top_steps [where E = sample_env and L = sample_lib
      and opps = "[sample_opp, sample_opp2, sample_opp3, sample_opp4]"
      and r = sample_run and w = sample_world
      and e = "fst (run_top sample_env sample_lib
        [sample_opp, sample_opp2, sample_opp3, sample_opp4] (sample_run, sample_world))"
      and r' = "fst (snd (run_top sample_env sample_lib
        [sample_opp, sample_opp2, sample_opp3, sample_opp4] (sample_run, sample_world)))"
      and w' = "snd (snd (run_top sample_env sample_lib
        [sample_opp, sample_opp2, sample_opp3, sample_opp4] (sample_run, sample_world)))"
      and ?r1.0 = sample_run and d = "[]" and opp = sample_opp and ?w1.0 = sample_world
      and oid = "JStr ''0xabc''"
      and ?w2.0 = "sample_world\<lparr>ledger_file := Absent, ext := 1,
        submitted :=
          [(\<lparr>token_id = ''222'', order_price = 0.95, order_size = 5 / 0.95,
             side = ''BUY'', fee_rate_bps = 0\<rparr>,
            Some (JObj [(''orderID'', JStr ''0xabc'')]))]\<rparr>"
      and rest = "[]"]
  note t2 = run_top_steps [where E = sample_env and L = sample_lib
      and opps = "[]" and r = sample_run and w = sample_world
      and e = None and r' = sample_run and w' = sample_world
      and ?r1.0 = sample_run and d = "[]" and opp = sample_opp
      and ?w1.0 = "sample_world\<lparr>ledger_file := Inaccessible\<rparr>"
      and oid = "JStr ''0xabc''"
      and ?w2.0 = "sample_world\<lparr>ledger_file := Inaccessible, ext := 1,
        submitted :=
          [(\<lparr>token_id = ''222'', order_price = 0.95, order_size = 5 / 0.95,
             side = ''BUY'', fee_rate_bps = 0\<rparr>,
            Some (JObj [(''orderID'', JStr ''0xabc'')]))]\<rparr>"
      and rest = "[sample_opp2]"]
  from t1 have b: "length (new_orders sample_world (snd (snd (run_top sample_env sample_lib
        [sample_opp, sample_opp2, sample_opp3, sample_opp4] (sample_run, sample_world))))) \<le> 3"
    by simp
  have f: "ledger_file (sample_world\<lparr>ledger_file := Absent, ext := 1,
        submitted :=
          [(\<lparr>token_id = ''222'', order_price = 0.95, order_size = 5 / 0.95,
             side = ''BUY'', fee_rate_bps = 0\<rparr>,
            Some (JObj [(''orderID'', JStr ''0xabc'')]))]\<rparr>) \<noteq> Inaccessible"
    and f': "ledger_file (sample_world\<lparr>ledger_file := Inaccessible, ext := 1,
        submitted :=
          [(\<lparr>token_id = ''222'', order_price = 0.95, order_size = 5 / 0.95,
             side = ''BUY'', fee_rate_bps = 0\<rparr>,
            Some (JObj [(''orderID'', JStr ''0xabc'')]))]\<rparr>) = Inaccessible"
    by simp_all
  from t1 h(1-4) t f have "\<exists>r3 w3.
      run_step sample_env sample_lib sample_opp (sample_run, sample_world) = (None, r3, w3) \<and>
      run_ledger r3 =
        JObj (AList.update (opp_no sample_opp)
          (position_entry sample_env sample_opp (JStr ''0xabc'')
            (ext (sample_world\<lparr>ledger_file := Absent, ext := 1,
        submitted :=
          [(\<lparr>token_id = ''222'', order_price = 0.95, order_size = 5 / 0.95,
             side = ''BUY'', fee_rate_bps = 0\<rparr>,
            Some (JObj [(''orderID'', JStr ''0xabc'')]))]\<rparr>))) []) \<and>
      ledger_file w3 = Content (json_dumps sample_lib (run_ledger r3)) \<and>
      (run_balance r3, w3) = get_balance sample_env
         (sample_world\<lparr>ledger_file := Absent, ext := 1,
        submitted :=
          [(\<lparr>token_id = ''222'', order_price = 0.95, order_size = 5 / 0.95,
             side = ''BUY'', fee_rate_bps = 0\<rparr>,
            Some (JObj [(''orderID'', JStr ''0xabc'')]))],
        ledger_file := Content (json_dumps sample_lib (run_ledger r3))\<rparr>) \<and>
      run_trades r3 = run_trades sample_run + 1"
    by blast
  then have c: "\<exists>r3 w3.
      run_step sample_env sample_lib sample_opp (sample_run, sample_world) = (None, r3, w3) \<and>
      run_ledger r3 =
        JObj [(''222'', position_entry sample_env sample_opp (JStr ''0xabc'') 1)] \<and>
      ledger_file w3 = Content (json_dumps sample_lib (run_ledger r3)) \<and>
      run_balance r3 = 100 \<and> run_trades r3 = 1"
    by (auto simp: sample_balance h sample_opp_def)
  from t2 h(1-4) t' f' have "run_loop sample_env sample_lib [sample_opp, sample_opp2]
     (sample_run, sample_world\<lparr>ledger_file := Inaccessible\<rparr>) =
           (Some OSError,
            sample_run\<lparr>run_ledger :=
                 JObj (AList.update (opp_no sample_opp)
                   (position_entry sample_env sample_opp (JStr ''0xabc'')
                     (ext (sample_world\<lparr>ledger_file := Inaccessible, ext := 1,
        submitted :=
          [(\<lparr>token_id = ''222'', order_price = 0.95, order_size = 5 / 0.95,
             side = ''BUY'', fee_rate_bps = 0\<rparr>,
            Some (JObj [(''orderID'', JStr ''0xabc'')]))]\<rparr>))) [])\<rparr>,
            sample_world\<lparr>ledger_file := Inaccessible, ext := 1,
        submitted :=
          [(\<lparr>token_id = ''222'', order_price = 0.95, order_size = 5 / 0.95,
             side = ''BUY'', fee_rate_bps = 0\<rparr>,
            Some (JObj [(''orderID'', JStr ''0xabc'')]))]\<rparr>)"
    by blast
  then have d: "fst (run_loop sample_env sample_lib [sample_opp, sample_opp2]
     (sample_run, sample_world\<lparr>ledger_file := Inaccessible\<rparr>)) = Some OSError"
    by simp
  from a b c d show ?thesis by blast
qed

text \<open>
  The claim as first stated fails on two runs. With a ledger file that cannot be written,
  the order is sent and answered with an order id, then the loop ends with \<open>OSError\<close>:
  the file is as it was, and the balance is still 50 although the wallet holds 100. With
  a ledger that is a list, the order is sent and the assignment raises \<open>TypeError\<close>: the
  ledger has gained nothing.
\<close>
theorem run_top_unwritable_counterexample:
  "run_top sample_env sample_lib [sample_opp]
     (sample_run, sample_world\<lparr>ledger_file := Inaccessible\<rparr>) =
     (Some OSError,
      sample_run\<lparr>run_ledger :=
        JObj [(''222'', position_entry sample_env sample_opp (JStr ''0xabc'') 1)]\<rparr>,
      sample_world\<lparr>ledger_file := Inaccessible, ext := 1,
        submitted :=
          [(\<lparr>token_id = ''222'', order_price = 0.95, order_size = 5 / 0.95,
             side = ''BUY'', fee_rate_bps = 0\<rparr>,
            Some (JObj [(''orderID'', JStr ''0xabc'')]))]\<rparr>) \<and>
   truthy (order_id (Some (JObj [(''orderID'', JStr ''0xabc'')]))) \<and>
   run_balance sample_run = 50 \<and>
   fst (get_balance sample_env sample_world) = 100 \<and>
   run_top sample_env sample_lib [sample_opp]
     (sample_run\<lparr>run_ledger := JArr []\<rparr>, sample_world) =
     (Some TypeError,
      sample_run\<lparr>run_ledger := JArr []\<rparr>,
      sample_world\<lparr>ext := 1,
        submitted :=
          [(\<lparr>token_id = ''222'', order_price = 0.95, order_size = 5 / 0.95,
             side = ''BUY'', fee_rate_bps = 0\<rparr>,
            Some (JObj [(''orderID'', JStr ''0xabc'')]))]\<rparr>)"
  by code_simp

end
